theory Spec2Isabelle
  imports Main "HOL-Library.Sublist"
begin

section \<open>The deployment variable resource of the Bitbucket provider\<close>

text \<open>
  A shallow embedding of \<^verbatim>\<open>bitbucket/resource_deployment_variable.go\<close>. Go strings are
  byte sequences, hence \<open>string\<close>. A Go function that may panic returns the panic as a
  value; the value of type \<^verbatim>\<open>error\<close> a function returns is an \<open>error option\<close>, with
  \<open>None\<close> for \<^verbatim>\<open>nil\<close>.
\<close>

subsection \<open>Data\<close>

type_synonym error = string

datatype fault = IndexOutOfRange | NilPointerDereference

record DeploymentVariable =
  Key :: string
  Value :: string
  UUID :: string
  Secured :: bool

record PaginatedDeploymentVariables =
  Values :: "DeploymentVariable list"
  Page :: int
  Size :: int
  Next :: string

text \<open>
  \<^verbatim>\<open>schema.ResourceData\<close> restricted to the schema of \<^verbatim>\<open>resourceDeploymentVariable\<close>:
  the identity (\<^verbatim>\<open>d.Id()\<close>, \<^verbatim>\<open>d.SetId\<close>) and the five fields read by \<^verbatim>\<open>d.Get\<close> and
  written by \<^verbatim>\<open>d.Set\<close>, each with the type the schema gives it.
\<close>

record ResourceData =
  rd_Id :: string
  rd_uuid :: string
  rd_key :: string
  rd_value :: string
  rd_secured :: bool
  rd_deployment :: string

subsection \<open>\<^verbatim>\<open>strings.SplitN\<close> with a one-byte separator\<close>

text \<open>\<^verbatim>\<open>strings.IndexByte\<close>: the position of the first occurrence, \<open>None\<close> for -1.\<close>

fun IndexByte :: "string \<Rightarrow> char \<Rightarrow> nat option" where
  "IndexByte [] c = None"
| "IndexByte (x # s) c = (if x = c then Some 0 else map_option Suc (IndexByte s c))"

text \<open>
  The loop of \<^verbatim>\<open>strings.genSplit\<close>; the third argument is the number of cuts that are
  still allowed (\<^verbatim>\<open>n - i\<close> in the Go text, after \<^verbatim>\<open>n--\<close>).
\<close>

fun genSplitLoop :: "string \<Rightarrow> char \<Rightarrow> nat \<Rightarrow> string list" where
  "genSplitLoop s c 0 = [s]"
| "genSplitLoop s c (Suc k) =
     (case IndexByte s c of
        None \<Rightarrow> [s]
      | Some m \<Rightarrow> take m s # genSplitLoop (drop (m + 1) s) c k)"

definition SplitN :: "string \<Rightarrow> char \<Rightarrow> nat \<Rightarrow> string list" where
  "SplitN s sep n =
     (if n = 0 then []
      else genSplitLoop s sep ((if n > length s + 1 then length s + 1 else n) - 1))"

text \<open>A slice index expression \<^verbatim>\<open>a[i]\<close>, which panics out of range.\<close>

definition index :: "'a list \<Rightarrow> nat \<Rightarrow> fault + 'a" where
  "index a i = (if i < length a then Inr (a ! i) else Inl IndexOutOfRange)"

subsection \<open>The helpers\<close>

definition newDeploymentVariableFromResource :: "ResourceData \<Rightarrow> DeploymentVariable" where
  "newDeploymentVariableFromResource d =
     \<lparr>Key = rd_key d, Value = rd_value d, UUID = [], Secured = rd_secured d\<rparr>"

definition parseDeploymentId :: "string \<Rightarrow> fault + (string \<times> string)" where
  "parseDeploymentId str =
     (let parts = SplitN str CHR '':'' 2 in
      case index parts 0 of
        Inl f \<Rightarrow> Inl f
      | Inr repository \<Rightarrow>
          (case index parts 1 of
             Inl f \<Rightarrow> Inl f
           | Inr deployment \<Rightarrow> Inr (repository, deployment)))"

subsection \<open>The collaborators\<close>

text \<open>
  An \<^verbatim>\<open>*http.Response\<close>: its status code, and what \<^verbatim>\<open>ioutil.ReadAll\<close> yields for its
  body (the bytes, or the error of the read).
\<close>

record Response =
  StatusCode :: int
  Body :: "error + string"

text \<open>
  The HTTP client is not part of this file: its four methods are parameters. Each takes
  the state \<open>'w\<close> of the world beyond the program (remote service, network) and returns
  the Go pair \<^verbatim>\<open>(*http.Response, error)\<close>, either of which may be \<^verbatim>\<open>nil\<close>, with the
  state after the call.
\<close>

type_synonym 'w roundtrip = "'w \<Rightarrow> (Response option \<times> error option) \<times> 'w"

record 'w Client =
  Get :: "string \<Rightarrow> 'w roundtrip"
  Post :: "string \<Rightarrow> string \<Rightarrow> 'w roundtrip"
  Put :: "string \<Rightarrow> string \<Rightarrow> 'w roundtrip"
  Delete :: "string \<Rightarrow> 'w roundtrip"

text \<open>
  The functions of Go's standard library that the file calls and that are not modelled
  here: \<^verbatim>\<open>json.Marshal\<close> of a \<^verbatim>\<open>*DeploymentVariable\<close>, \<^verbatim>\<open>json.Unmarshal\<close> into a zero
  \<^verbatim>\<open>DeploymentVariable\<close> and into a zero \<^verbatim>\<open>PaginatedDeploymentVariables\<close>,
  \<^verbatim>\<open>url.PathEscape\<close>, \<^verbatim>\<open>fmt.Sprintf\<close> of a format with no operand (it rewrites the
  percent signs of the format), and what the passing of time during \<^verbatim>\<open>time.Sleep\<close>
  does to the world (the argument is in milliseconds).
\<close>

record 'w Lib =
  Marshal :: "DeploymentVariable \<Rightarrow> error + string"
  UnmarshalVariable :: "string \<Rightarrow> error + DeploymentVariable"
  UnmarshalPage :: "string \<Rightarrow> error + PaginatedDeploymentVariables"
  PathEscape :: "string \<Rightarrow> string"
  Sprintf0 :: "string \<Rightarrow> string"
  Sleep :: "nat \<Rightarrow> 'w \<Rightarrow> 'w"

text \<open>
  What an operation does to its surroundings, in order: the requests it hands to the
  client, the lines it logs, and its sleeps.
\<close>

datatype event =
    HttpGet string
  | HttpPost string string
  | HttpPut string string
  | HttpDelete string
  | Logged string
  | Slept nat

record 'w world =
  remote :: 'w
  trace :: "event list"

definition emit :: "event \<Rightarrow> 'w world \<Rightarrow> 'w world" where
  "emit e w = w\<lparr>trace := trace w @ [e]\<rparr>"

text \<open>Hand a request to the client: the event is recorded, the remote state advances.\<close>

definition call ::
  "event \<Rightarrow> 'w roundtrip \<Rightarrow> 'w world \<Rightarrow> (Response option \<times> error option) \<times> 'w world" where
  "call e f w =
     (case f (remote w) of (r, s) \<Rightarrow> (r, \<lparr>remote = s, trace = trace w @ [e]\<rparr>))"

definition sleep :: "'w Lib \<Rightarrow> nat \<Rightarrow> 'w world \<Rightarrow> 'w world" where
  "sleep L ms w = \<lparr>remote = Sleep L ms (remote w), trace = trace w @ [Slept ms]\<rparr>"

text \<open>How a Go function of result type \<^verbatim>\<open>error\<close> ends.\<close>

datatype outcome = Panic fault | Return "error option"

type_synonym 'w result = "outcome \<times> ResourceData \<times> 'w world"

subsection \<open>Request paths\<close>

text \<open>The two \<^verbatim>\<open>fmt.Sprintf\<close> formats, whose operands are all strings under \<^verbatim>\<open>%s\<close>.\<close>

definition variablesPath :: "string \<Rightarrow> string \<Rightarrow> string" where
  "variablesPath repository deployment =
     ''2.0/repositories/'' @ repository @ ''/deployments_config/environments/'' @ deployment
       @ ''/variables''"

definition variablePath :: "string \<Rightarrow> string \<Rightarrow> string \<Rightarrow> string" where
  "variablePath repository deployment uuid =
     ''2.0/repositories/'' @ repository @ ''/deployments_config/environments/'' @ deployment
       @ ''/variables/'' @ uuid"

subsection \<open>Read\<close>

text \<open>
  The \<^verbatim>\<open>range\<close> loop over \<^verbatim>\<open>prv.Values\<close>: \<open>Some\<close> is the \<^verbatim>\<open>return nil\<close> inside the loop,
  with the record as the four setters leave it; \<open>None\<close> is the loop running to its end.
\<close>

fun scanValues :: "string \<Rightarrow> DeploymentVariable list \<Rightarrow> ResourceData \<Rightarrow> ResourceData option" where
  "scanValues uuid [] d = None"
| "scanValues uuid (rv # rvs) d =
     (if UUID rv = uuid
      then Some (d\<lparr>rd_Id := UUID rv, rd_key := Key rv, rd_value := Value rv,
                    rd_secured := Secured rv\<rparr>)
      else scanValues uuid rvs d)"

text \<open>
  The block under \<^verbatim>\<open>if rvReq.StatusCode == 200\<close>: \<open>Inl\<close> is a \<^verbatim>\<open>return\<close> inside the
  block, \<open>Inr\<close> is falling out of it with the record as it then is.
\<close>

definition readStatusOK ::
  "'w Lib \<Rightarrow> Response \<Rightarrow> ResourceData \<Rightarrow> (error option \<times> ResourceData) + ResourceData" where
  "readStatusOK L rvReq d =
     (case Body rvReq of
        Inl err \<Rightarrow> Inl (Some err, d)
      | Inr body \<Rightarrow>
          (case UnmarshalPage L body of
             Inl err \<Rightarrow> Inl (Some err, d)
           | Inr prv \<Rightarrow>
               if Size prv < 1 then Inl (None, d\<lparr>rd_Id := []\<rparr>)
               else (case scanValues (rd_uuid d) (Values prv) d of
                       Some d' \<Rightarrow> Inl (None, d')
                     | None \<Rightarrow> Inr (d\<lparr>rd_Id := []\<rparr>))))"

text \<open>Everything of Read after the log line, for a response that is not \<^verbatim>\<open>nil\<close>.\<close>

definition readResponse ::
  "'w Lib \<Rightarrow> Response \<Rightarrow> ResourceData \<Rightarrow> error option \<times> ResourceData" where
  "readResponse L rvReq d =
     (case (if StatusCode rvReq = 200 then readStatusOK L rvReq d else Inr d) of
        Inl ret \<Rightarrow> ret
      | Inr d1 \<Rightarrow>
          if StatusCode rvReq = 404 then (None, d1\<lparr>rd_Id := []\<rparr>)
          else (None, d1))"

definition resourceDeploymentVariableRead ::
  "'w Lib \<Rightarrow> 'w Client \<Rightarrow> ResourceData \<Rightarrow> 'w world \<Rightarrow> 'w result" where
  "resourceDeploymentVariableRead L m d w =
     (case parseDeploymentId (rd_deployment d) of
        Inl f \<Rightarrow> (Panic f, d, w)
      | Inr (repository, deployment) \<Rightarrow>
          (case call (HttpGet (variablesPath repository deployment))
                  (Get m (variablesPath repository deployment)) w of
             ((rvReq, _), w1) \<Rightarrow>
               let w2 = emit (Logged (''ID: '' @ PathEscape L (rd_Id d))) w1 in
               (case rvReq of
                  None \<Rightarrow> (Panic NilPointerDereference, d, w2)
                | Some r \<Rightarrow>
                    (case readResponse L r d of (err, d') \<Rightarrow> (Return err, d', w2)))))"

subsection \<open>Create, Update, Delete\<close>

definition resourceDeploymentVariableCreate ::
  "'w Lib \<Rightarrow> 'w Client \<Rightarrow> ResourceData \<Rightarrow> 'w world \<Rightarrow> 'w result" where
  "resourceDeploymentVariableCreate L m d w =
     (case Marshal L (newDeploymentVariableFromResource d) of
        Inl err \<Rightarrow> (Return (Some err), d, w)
      | Inr bytedata \<Rightarrow>
     (case parseDeploymentId (rd_deployment d) of
        Inl f \<Rightarrow> (Panic f, d, w)
      | Inr (repository, deployment) \<Rightarrow>
     (case call (HttpPost (variablesPath repository deployment) bytedata)
             (Post m (variablesPath repository deployment) bytedata) w of
        ((req, err), w1) \<Rightarrow>
     (case err of
        Some e \<Rightarrow> (Return (Some e), d, w1)
      | None \<Rightarrow>
     (case req of
        None \<Rightarrow> (Panic NilPointerDereference, d, w1)
      | Some r \<Rightarrow>
     (case Body r of
        Inl e \<Rightarrow> (Return (Some e), d, w1)
      | Inr body \<Rightarrow>
     (case UnmarshalVariable L body of
        Inl e \<Rightarrow> (Return (Some e), d, w1)
      | Inr rv \<Rightarrow>
          resourceDeploymentVariableRead L m
            (d\<lparr>rd_uuid := UUID rv, rd_Id := UUID rv\<rparr>) (sleep L 5000 w1))))))))"

definition resourceDeploymentVariableUpdate ::
  "'w Lib \<Rightarrow> 'w Client \<Rightarrow> ResourceData \<Rightarrow> 'w world \<Rightarrow> 'w result" where
  "resourceDeploymentVariableUpdate L m d w =
     (case Marshal L (newDeploymentVariableFromResource d) of
        Inl err \<Rightarrow> (Return (Some err), d, w)
      | Inr bytedata \<Rightarrow>
     (case parseDeploymentId (rd_deployment d) of
        Inl f \<Rightarrow> (Panic f, d, w)
      | Inr (repository, deployment) \<Rightarrow>
     (case call (HttpPut (variablePath repository deployment (rd_uuid d)) bytedata)
             (Put m (variablePath repository deployment (rd_uuid d)) bytedata) w of
        ((req, err), w1) \<Rightarrow>
     (case err of
        Some e \<Rightarrow> (Return (Some e), d, w1)
      | None \<Rightarrow>
     (case req of
        None \<Rightarrow> (Panic NilPointerDereference, d, w1)
      | Some r \<Rightarrow>
          if StatusCode r \<noteq> 200 then (Return None, d, w1)
          else resourceDeploymentVariableRead L m d w1)))))"

definition resourceDeploymentVariableDelete ::
  "'w Lib \<Rightarrow> 'w Client \<Rightarrow> ResourceData \<Rightarrow> 'w world \<Rightarrow> 'w result" where
  "resourceDeploymentVariableDelete L m d w =
     (case parseDeploymentId (rd_deployment d) of
        Inl f \<Rightarrow> (Panic f, d, w)
      | Inr (repository, deployment) \<Rightarrow>
          (case call (HttpDelete (Sprintf0 L (variablePath repository deployment (rd_uuid d))))
                  (Delete m (Sprintf0 L (variablePath repository deployment (rd_uuid d)))) w of
             ((_, err), w1) \<Rightarrow> (Return err, d, w1)))"

subsection \<open>A scripted client, for running the operations on concrete inputs\<close>

text \<open>
  The test double used below: the state of the world is the list of answers still to be
  given, and each request, whatever its path and body, takes the next one. The codec
  knows a handful of bodies by name.
\<close>

type_synonym script = "(Response option \<times> error option) list"

definition scripted :: "script roundtrip" where
  "scripted s =
     (case s of
        [] \<Rightarrow> ((None, Some ''script exhausted''), [])
      | r # rs \<Rightarrow> (r, rs))"

definition mockClient :: "script Client" where
  "mockClient =
     \<lparr>Get = (\<lambda>path. scripted), Post = (\<lambda>path body. scripted),
      Put = (\<lambda>path body. scripted), Delete = (\<lambda>path. scripted)\<rparr>"

definition var_u1 :: DeploymentVariable where
  "var_u1 = \<lparr>Key = ''k'', Value = ''v'', UUID = ''u1'', Secured = False\<rparr>"

definition var_u2 :: DeploymentVariable where
  "var_u2 = \<lparr>Key = ''other'', Value = ''w'', UUID = ''u2'', Secured = True\<rparr>"

definition mockUnmarshalPage :: "string \<Rightarrow> error + PaginatedDeploymentVariables" where
  "mockUnmarshalPage body =
     (if body = ''page: u2 u1, size 2''
        then Inr \<lparr>Values = [var_u2, var_u1], Page = 1, Size = 2, Next = []\<rparr>
      else if body = ''page: u2, size 1''
        then Inr \<lparr>Values = [var_u2], Page = 1, Size = 1, Next = []\<rparr>
      else if body = ''page: u1, no size''
        then Inr \<lparr>Values = [var_u1], Page = 0, Size = 0, Next = []\<rparr>
      else if body = ''page: empty, size 0''
        then Inr \<lparr>Values = [], Page = 1, Size = 0, Next = []\<rparr>
      else Inl ''invalid character'')"

definition mockLib :: "script Lib" where
  "mockLib =
     \<lparr>Marshal = (\<lambda>dv. Inr (Key dv @ ''='' @ Value dv)),
      UnmarshalVariable =
        (\<lambda>body. if body = ''variable: u1'' then Inr var_u1 else Inl ''invalid character''),
      UnmarshalPage = mockUnmarshalPage,
      PathEscape = (\<lambda>s. s),
      Sprintf0 = (\<lambda>s. s),
      Sleep = (\<lambda>ms s. s)\<rparr>"

definition response :: "int \<Rightarrow> string \<Rightarrow> Response" where
  "response code body = \<lparr>StatusCode = code, Body = Inr body\<rparr>"

definition answers :: "script \<Rightarrow> script world" where
  "answers s = \<lparr>remote = s, trace = []\<rparr>"

text \<open>A local record for the variable \<open>u1\<close> whose key and value are out of date.\<close>

definition local_u1 :: ResourceData where
  "local_u1 =
     \<lparr>rd_Id = ''u1'', rd_uuid = ''u1'', rd_key = ''old'', rd_value = ''x'',
      rd_secured = True, rd_deployment = ''team/repo:{env}''\<rparr>"

text \<open>A record that has not been created yet.\<close>

definition local_new :: ResourceData where
  "local_new =
     \<lparr>rd_Id = [], rd_uuid = [], rd_key = ''k'', rd_value = ''v'',
      rd_secured = False, rd_deployment = ''team/repo:{env}''\<rparr>"

section \<open>Properties\<close>

subsection \<open>Splitting\<close>

lemma IndexByte_None: "IndexByte s c = None \<longleftrightarrow> c \<notin> set s"
  by (induction s) auto

lemma IndexByte_first: "c \<notin> set a \<Longrightarrow> IndexByte (a @ c # b) c = Some (length a)"
  by (induction a) auto

lemma SplitN_2_no_sep: "c \<notin> set s \<Longrightarrow> SplitN s c 2 = [s]"
  by (cases s) (auto simp: SplitN_def IndexByte_None split: option.splits)

lemma SplitN_2_sep: "c \<notin> set a \<Longrightarrow> SplitN (a @ c # b) c 2 = [a, b]"
  by (simp add: SplitN_def IndexByte_first)

lemma parseDeploymentId_no_colon:
  "CHR '':'' \<notin> set str \<Longrightarrow> parseDeploymentId str = Inl IndexOutOfRange"
  by (simp add: parseDeploymentId_def SplitN_2_no_sep index_def)

lemma parseDeploymentId_colon:
  "CHR '':'' \<notin> set a \<Longrightarrow> parseDeploymentId (a @ CHR '':'' # b) = Inr (a, b)"
  by (simp add: parseDeploymentId_def SplitN_2_sep index_def)

lemma first_colon_decomposition:
  "CHR '':'' \<in> set str \<Longrightarrow> \<exists>a b. str = a @ CHR '':'' # b \<and> CHR '':'' \<notin> set a"
  by (metis split_list_first)

subsection \<open>Read, unfolded\<close>

lemma call_eq: "f (remote w) = (r, s) \<Longrightarrow> call e f w = (r, \<lparr>remote = s, trace = trace w @ [e]\<rparr>)"
  by (simp add: call_def)

lemma Read_response:
  assumes "parseDeploymentId (rd_deployment d) = Inr (repository, deployment)"
    and "Get m (variablesPath repository deployment) (remote w) = ((Some rvReq, err), s)"
  shows "resourceDeploymentVariableRead L m d w =
           (Return (fst (readResponse L rvReq d)), snd (readResponse L rvReq d),
            \<lparr>remote = s,
             trace = trace w @ [HttpGet (variablesPath repository deployment),
                                Logged (''ID: '' @ PathEscape L (rd_Id d))]\<rparr>)"
  using assms
  by (simp add: resourceDeploymentVariableRead_def call_eq emit_def split: prod.splits)

lemma Read_nil_response:
  assumes "parseDeploymentId (rd_deployment d) = Inr (repository, deployment)"
    and "Get m (variablesPath repository deployment) (remote w) = ((None, err), s)"
  shows "resourceDeploymentVariableRead L m d w =
           (Panic NilPointerDereference, d,
            \<lparr>remote = s,
             trace = trace w @ [HttpGet (variablesPath repository deployment),
                                Logged (''ID: '' @ PathEscape L (rd_Id d))]\<rparr>)"
  using assms
  by (simp add: resourceDeploymentVariableRead_def call_eq emit_def)

lemma Read_trace:
  assumes "parseDeploymentId (rd_deployment d) = Inr (repository, deployment)"
  shows "trace (snd (snd (resourceDeploymentVariableRead L m d w))) =
           trace w @ [HttpGet (variablesPath repository deployment),
                      Logged (''ID: '' @ PathEscape L (rd_Id d))]"
proof -
  obtain r err s where g: "Get m (variablesPath repository deployment) (remote w) = ((r, err), s)"
    by (metis prod.exhaust)
  show ?thesis
  proof (cases r)
    case None
    with g assms show ?thesis by (simp add: Read_nil_response)
  next
    case (Some rvReq)
    with g assms show ?thesis by (simp add: Read_response)
  qed
qed

lemma scanValues_find:
  "scanValues uuid vs d =
     map_option (\<lambda>rv. d\<lparr>rd_Id := UUID rv, rd_key := Key rv, rd_value := Value rv,
                        rd_secured := Secured rv\<rparr>)
       (find (\<lambda>rv. UUID rv = uuid) vs)"
  by (induction vs) auto

lemma scanValues_None: "scanValues uuid vs d = None \<longleftrightarrow> (\<forall>rv \<in> set vs. UUID rv \<noteq> uuid)"
  by (induction vs) auto

lemma scanValues_uuid: "scanValues uuid vs d = Some d' \<Longrightarrow> rd_uuid d' = rd_uuid d \<and> rd_deployment d' = rd_deployment d"
  by (induction vs) (auto split: if_splits)

lemma scanValues_again: "scanValues uuid vs d = Some d' \<Longrightarrow> scanValues uuid vs d' = Some d'"
  by (induction vs) (auto split: if_splits)

lemma scanValues_None_any: "scanValues uuid vs d = None \<Longrightarrow> scanValues uuid vs d' = None"
  by (simp add: scanValues_None)

lemma readResponse_404:
  "StatusCode rvReq = 404 \<Longrightarrow> readResponse L rvReq d = (None, d\<lparr>rd_Id := []\<rparr>)"
  by (simp add: readResponse_def)

lemma readResponse_small:
  "StatusCode rvReq = 200 \<Longrightarrow> Body rvReq = Inr body \<Longrightarrow> UnmarshalPage L body = Inr prv \<Longrightarrow>
   Size prv < 1 \<Longrightarrow> readResponse L rvReq d = (None, d\<lparr>rd_Id := []\<rparr>)"
  by (simp add: readResponse_def readStatusOK_def)

lemma readResponse_absent:
  "StatusCode rvReq = 200 \<Longrightarrow> Body rvReq = Inr body \<Longrightarrow> UnmarshalPage L body = Inr prv \<Longrightarrow>
   \<forall>rv \<in> set (Values prv). UUID rv \<noteq> rd_uuid d \<Longrightarrow>
   readResponse L rvReq d = (None, d\<lparr>rd_Id := []\<rparr>)"
  using scanValues_None [of "rd_uuid d" "Values prv" d]
  by (simp add: readResponse_def readStatusOK_def)

lemma readResponse_found:
  "StatusCode rvReq = 200 \<Longrightarrow> Body rvReq = Inr body \<Longrightarrow> UnmarshalPage L body = Inr prv \<Longrightarrow>
   1 \<le> Size prv \<Longrightarrow> find (\<lambda>rv. UUID rv = rd_uuid d) (Values prv) = Some rv \<Longrightarrow>
   readResponse L rvReq d =
     (None, d\<lparr>rd_Id := UUID rv, rd_key := Key rv, rd_value := Value rv,
               rd_secured := Secured rv\<rparr>)"
  by (simp add: readResponse_def readStatusOK_def scanValues_find)

lemma readResponse_keeps:
  "rd_uuid (snd (readResponse L rvReq d)) = rd_uuid d \<and>
   rd_deployment (snd (readResponse L rvReq d)) = rd_deployment d"
  by (auto simp: readResponse_def readStatusOK_def dest: scanValues_uuid split: sum.splits option.splits)

lemma readResponse_eq:
  "readResponse L rvReq d =
     (if StatusCode rvReq = 200 then
        (case Body rvReq of
           Inl err \<Rightarrow> (Some err, d)
         | Inr body \<Rightarrow>
             (case UnmarshalPage L body of
                Inl err \<Rightarrow> (Some err, d)
              | Inr prv \<Rightarrow>
                  (None,
                   if Size prv < 1 then d\<lparr>rd_Id := []\<rparr>
                   else (case find (\<lambda>rv. UUID rv = rd_uuid d) (Values prv) of
                           None \<Rightarrow> d\<lparr>rd_Id := []\<rparr>
                         | Some rv \<Rightarrow>
                             d\<lparr>rd_Id := UUID rv, rd_key := Key rv, rd_value := Value rv,
                               rd_secured := Secured rv\<rparr>))))
      else if StatusCode rvReq = 404 then (None, d\<lparr>rd_Id := []\<rparr>)
      else (None, d))"
  by (simp add: readResponse_def readStatusOK_def scanValues_find
      split: sum.splits option.splits)

lemma readResponse_again:
  "readResponse L rvReq (snd (readResponse L rvReq d)) = readResponse L rvReq d"
  by (simp add: readResponse_eq split: sum.splits option.splits)

lemma Read_keeps:
  "rd_uuid (fst (snd (resourceDeploymentVariableRead L m d w))) = rd_uuid d \<and>
   rd_deployment (fst (snd (resourceDeploymentVariableRead L m d w))) = rd_deployment d"
proof (cases "parseDeploymentId (rd_deployment d)")
  case (Inl f)
  then show ?thesis by (simp add: resourceDeploymentVariableRead_def)
next
  case (Inr p)
  obtain repository deployment where p: "p = (repository, deployment)"
    by (cases p)
  obtain r err s where g: "Get m (variablesPath repository deployment) (remote w) = ((r, err), s)"
    by (metis prod.exhaust)
  show ?thesis
  proof (cases r)
    case None
    with g Inr p show ?thesis by (simp add: Read_nil_response)
  next
    case (Some rvReq)
    with g Inr p show ?thesis by (simp add: Read_response readResponse_keeps)
  qed
qed

lemma parse_example: "parseDeploymentId ''team/repo:{env}'' = Inr (''team/repo'', ''{env}'')"
  by (simp add: parseDeploymentId_def SplitN_def index_def)

subsection \<open>The claims about \<open>parseDeploymentId\<close>\<close>

text \<open>
  Claim C1. For a string with no colon \<^verbatim>\<open>strings.SplitN\<close> returns a slice of length one,
  so that \<^verbatim>\<open>parts[1]\<close> is out of range: \<open>parseDeploymentId\<close> panics with an index out
  of range, and it returns no explicit error. It panics exactly on the strings that have
  no colon.
\<close>

theorem parseDeploymentId_panics_iff_no_colon:
  "(parseDeploymentId str = Inl IndexOutOfRange \<longleftrightarrow> CHR '':'' \<notin> set str)
     \<and> (isl (parseDeploymentId str) \<longleftrightarrow> CHR '':'' \<notin> set str)"
proof (cases "CHR '':'' \<in> set str")
  case True
  then obtain a b where "str = a @ CHR '':'' # b" and "CHR '':'' \<notin> set a"
    using first_colon_decomposition by blast
  then have "parseDeploymentId str = Inr (a, b)"
    by (simp add: parseDeploymentId_colon)
  with True show ?thesis by simp
next
  case False
  then show ?thesis by (simp add: parseDeploymentId_no_colon)
qed

theorem parseDeploymentId_panics_iff_no_colon_witness:
  "parseDeploymentId ''team/repo'' = Inl IndexOutOfRange
     \<and> parseDeploymentId [] = Inl IndexOutOfRange
     \<and> \<not> isl (parseDeploymentId ''team/repo:{env}'')"
  using parseDeploymentId_panics_iff_no_colon [of "''team/repo''"]
    parseDeploymentId_panics_iff_no_colon [of "[]"]
    parseDeploymentId_panics_iff_no_colon [of "''team/repo:{env}''"]
  by simp

text \<open>
  Claim C4. On a string that contains a colon, \<open>parseDeploymentId\<close> returns the text
  before the first colon and everything after that colon, further colons included; so
  \<^verbatim>\<open>a:b:c\<close> gives \<^verbatim>\<open>a\<close> and \<^verbatim>\<open>b:c\<close>.
\<close>

theorem parseDeploymentId_first_colon_only:
  assumes "CHR '':'' \<in> set str"
  shows "parseDeploymentId str =
           Inr (takeWhile (\<lambda>c. c \<noteq> CHR '':'') str,
                tl (dropWhile (\<lambda>c. c \<noteq> CHR '':'') str))"
proof -
  from assms obtain a b where s: "str = a @ CHR '':'' # b" and a: "CHR '':'' \<notin> set a"
    using first_colon_decomposition by blast
  from a have "takeWhile (\<lambda>c. c \<noteq> CHR '':'') str = a"
    and "dropWhile (\<lambda>c. c \<noteq> CHR '':'') str = CHR '':'' # b"
    unfolding s by (simp_all add: takeWhile_append dropWhile_append)
  with a show ?thesis by (simp add: s parseDeploymentId_colon)
qed

theorem parseDeploymentId_first_colon_only_witness:
  "CHR '':'' \<in> set ''a:b:c'' \<and> parseDeploymentId ''a:b:c'' = Inr (''a'', ''b:c'')"
  using parseDeploymentId_first_colon_only [of "''a:b:c''"] by simp

subsection \<open>The claims about Read\<close>

text \<open>
  Claim C3. Let the list request of Read be answered by a response. If its status is 404,
  or its status is 200 and its body decodes to a page whose \<open>Size\<close> is below 1 or whose
  \<open>Values\<close> hold no entry with the \<open>uuid\<close> of the local record, then Read returns
  \<^verbatim>\<open>nil\<close> and the identity of the record is the empty string afterwards.
\<close>

theorem Read_clears_identity:
  assumes parse: "parseDeploymentId (rd_deployment d) = Inr (repository, deployment)"
    and get: "Get m (variablesPath repository deployment) (remote w) = ((Some rvReq, err), s)"
    and absent: "StatusCode rvReq = 404
       \<or> (StatusCode rvReq = 200 \<and> Body rvReq = Inr body \<and> UnmarshalPage L body = Inr prv
            \<and> (Size prv < 1 \<or> (\<forall>rv \<in> set (Values prv). UUID rv \<noteq> rd_uuid d)))"
  shows "fst (resourceDeploymentVariableRead L m d w) = Return None
       \<and> rd_Id (fst (snd (resourceDeploymentVariableRead L m d w))) = []"
proof -
  from absent have "readResponse L rvReq d = (None, d\<lparr>rd_Id := []\<rparr>)"
    by (auto simp: readResponse_404 readResponse_small readResponse_absent)
  with parse get show ?thesis by (simp add: Read_response)
qed

theorem Read_clears_identity_witness:
  "fst (resourceDeploymentVariableRead mockLib mockClient local_u1
          (answers [(Some (response 404 []), Some ''404 Not Found'')])) = Return None
   \<and> rd_Id (fst (snd (resourceDeploymentVariableRead mockLib mockClient local_u1
          (answers [(Some (response 404 []), Some ''404 Not Found'')])))) = []
   \<and> fst (resourceDeploymentVariableRead mockLib mockClient local_u1
          (answers [(Some (response 200 ''page: empty, size 0''), None)])) = Return None
   \<and> rd_Id (fst (snd (resourceDeploymentVariableRead mockLib mockClient local_u1
          (answers [(Some (response 200 ''page: empty, size 0''), None)])))) = []
   \<and> fst (resourceDeploymentVariableRead mockLib mockClient local_u1
          (answers [(Some (response 200 ''page: u2, size 1''), None)])) = Return None
   \<and> rd_Id (fst (snd (resourceDeploymentVariableRead mockLib mockClient local_u1
          (answers [(Some (response 200 ''page: u2, size 1''), None)])))) = []"
proof -
  have parse: "parseDeploymentId (rd_deployment local_u1) = Inr (''team/repo'', ''{env}'')"
    by (simp add: local_u1_def parse_example)
  have get: "Get mockClient (variablesPath ''team/repo'' ''{env}'') (remote (answers [r])) = (r, [])"
    for r by (simp add: mockClient_def scripted_def answers_def)
  have a: "StatusCode (response 404 []) = 404 \<or> (StatusCode (response 404 []) = 200 \<and> Body (response 404 []) = Inr []
       \<and> UnmarshalPage mockLib [] = Inr \<lparr>Values = [], Page = 0, Size = 0, Next = []\<rparr>
       \<and> (Size \<lparr>Values = [], Page = 0, Size = 0, Next = []\<rparr> < 1 \<or> (\<forall>rv \<in> set (Values \<lparr>Values = [], Page = 0, Size = 0, Next = []\<rparr>). UUID rv \<noteq> rd_uuid local_u1)))"
    by (simp add: response_def)
  have b: "StatusCode (response 200 ''page: empty, size 0'') = 404
     \<or> (StatusCode (response 200 ''page: empty, size 0'') = 200
          \<and> Body (response 200 ''page: empty, size 0'') = Inr ''page: empty, size 0''
          \<and> UnmarshalPage mockLib ''page: empty, size 0'' = Inr \<lparr>Values = [], Page = 1, Size = 0, Next = []\<rparr>
          \<and> (Size \<lparr>Values = [], Page = 1, Size = 0, Next = []\<rparr> < 1
               \<or> (\<forall>rv \<in> set (Values \<lparr>Values = [], Page = 1, Size = 0, Next = []\<rparr>). UUID rv \<noteq> rd_uuid local_u1)))"
    by (simp add: response_def mockLib_def mockUnmarshalPage_def)
  have c: "StatusCode (response 200 ''page: u2, size 1'') = 404
     \<or> (StatusCode (response 200 ''page: u2, size 1'') = 200
          \<and> Body (response 200 ''page: u2, size 1'') = Inr ''page: u2, size 1''
          \<and> UnmarshalPage mockLib ''page: u2, size 1'' = Inr \<lparr>Values = [var_u2], Page = 1, Size = 1, Next = []\<rparr>
          \<and> (Size \<lparr>Values = [var_u2], Page = 1, Size = 1, Next = []\<rparr> < 1
               \<or> (\<forall>rv \<in> set (Values \<lparr>Values = [var_u2], Page = 1, Size = 1, Next = []\<rparr>). UUID rv \<noteq> rd_uuid local_u1)))"
    by (simp add: response_def mockLib_def mockUnmarshalPage_def var_u2_def local_u1_def)
  from Read_clears_identity [OF parse get a] Read_clears_identity [OF parse get b]
    Read_clears_identity [OF parse get c]
  show ?thesis by simp
qed

text \<open>
  Claim C9. In the three cases in which Read clears the identity (status 404; status 200
  and a page whose \<open>Size\<close> is below 1; status 200 and a page without the local \<open>uuid\<close>)
  the record after Read is the record before it with the identity set to the empty
  string: \<open>key\<close>, \<open>value\<close>, \<open>secured\<close>, the \<open>uuid\<close> field and \<open>deployment\<close> are as
  they were.
\<close>

theorem Read_clearing_changes_identity_only:
  assumes parse: "parseDeploymentId (rd_deployment d) = Inr (repository, deployment)"
    and get: "Get m (variablesPath repository deployment) (remote w) = ((Some rvReq, err), s)"
    and absent: "StatusCode rvReq = 404
       \<or> (StatusCode rvReq = 200 \<and> Body rvReq = Inr body \<and> UnmarshalPage L body = Inr prv
            \<and> (Size prv < 1 \<or> (\<forall>rv \<in> set (Values prv). UUID rv \<noteq> rd_uuid d)))"
    and d': "d' = fst (snd (resourceDeploymentVariableRead L m d w))"
  shows "d' = d\<lparr>rd_Id := []\<rparr>
       \<and> rd_key d' = rd_key d \<and> rd_value d' = rd_value d \<and> rd_secured d' = rd_secured d
       \<and> rd_uuid d' = rd_uuid d \<and> rd_deployment d' = rd_deployment d"
proof -
  from absent have "readResponse L rvReq d = (None, d\<lparr>rd_Id := []\<rparr>)"
    by (auto simp: readResponse_404 readResponse_small readResponse_absent)
  with parse get have "d' = d\<lparr>rd_Id := []\<rparr>"
    unfolding d' by (simp add: Read_response)
  then show ?thesis by simp
qed

theorem Read_clearing_changes_identity_only_witness:
  "fst (snd (resourceDeploymentVariableRead mockLib mockClient local_u1
       (answers [(Some (response 200 ''page: u2, size 1''), None)])))
     = \<lparr>rd_Id = [], rd_uuid = ''u1'', rd_key = ''old'', rd_value = ''x'',
        rd_secured = True, rd_deployment = ''team/repo:{env}''\<rparr>"
proof -
  have parse: "parseDeploymentId (rd_deployment local_u1) = Inr (''team/repo'', ''{env}'')"
    by (simp add: local_u1_def parse_example)
  have get: "Get mockClient (variablesPath ''team/repo'' ''{env}'')
               (remote (answers [(Some (response 200 ''page: u2, size 1''), None)]))
             = ((Some (response 200 ''page: u2, size 1''), None), [])"
    by (simp add: mockClient_def scripted_def answers_def)
  have absent: "StatusCode (response 200 ''page: u2, size 1'') = 404
     \<or> (StatusCode (response 200 ''page: u2, size 1'') = 200
          \<and> Body (response 200 ''page: u2, size 1'') = Inr ''page: u2, size 1''
          \<and> UnmarshalPage mockLib ''page: u2, size 1''
              = Inr \<lparr>Values = [var_u2], Page = 1, Size = 1, Next = []\<rparr>
          \<and> (Size \<lparr>Values = [var_u2], Page = 1, Size = 1, Next = []\<rparr> < 1
               \<or> (\<forall>rv \<in> set (Values \<lparr>Values = [var_u2], Page = 1, Size = 1, Next = []\<rparr>).
                     UUID rv \<noteq> rd_uuid local_u1)))"
    by (simp add: response_def mockLib_def mockUnmarshalPage_def var_u2_def local_u1_def)
  from Read_clearing_changes_identity_only [OF parse get absent refl]
  show ?thesis by (simp add: local_u1_def)
qed

text \<open>
  Claim C6, as the code has it. The claim leaves out the test \<^verbatim>\<open>prv.Size < 1\<close>, which
  comes before the scan: a page that lists the variable but whose \<open>size\<close> is missing or
  zero clears the identity and copies nothing.
\<close>

theorem Read_ignores_match_when_size_below_1:
  "UnmarshalPage mockLib ''page: u1, no size''
     = Inr \<lparr>Values = [var_u1], Page = 0, Size = 0, Next = []\<rparr>
   \<and> UUID var_u1 = rd_uuid local_u1
   \<and> fst (snd (resourceDeploymentVariableRead mockLib mockClient local_u1
        (answers [(Some (response 200 ''page: u1, no size''), None)])))
     = local_u1\<lparr>rd_Id := []\<rparr>
   \<and> rd_key local_u1 \<noteq> Key var_u1"
proof -
  have parse: "parseDeploymentId (rd_deployment local_u1) = Inr (''team/repo'', ''{env}'')"
    by (simp add: local_u1_def parse_example)
  have get: "Get mockClient (variablesPath ''team/repo'' ''{env}'')
               (remote (answers [(Some (response 200 ''page: u1, no size''), None)]))
             = ((Some (response 200 ''page: u1, no size''), None), [])"
    by (simp add: mockClient_def scripted_def answers_def)
  have page: "UnmarshalPage mockLib ''page: u1, no size''
     = Inr \<lparr>Values = [var_u1], Page = 0, Size = 0, Next = []\<rparr>"
    by (simp add: mockLib_def mockUnmarshalPage_def)
  have "readResponse mockLib (response 200 ''page: u1, no size'') local_u1
          = (None, local_u1\<lparr>rd_Id := []\<rparr>)"
    by (simp add: readResponse_eq page) (simp add: response_def page)
  with parse get page show ?thesis
    by (simp add: Read_response var_u1_def local_u1_def)
qed

text \<open>
  Claim C6, amended. Let the list request be answered with status 200 and a body that
  decodes to a page whose \<open>Size\<close> is at least 1. If \<open>rv\<close> is the first entry of \<open>Values\<close>
  whose \<open>UUID\<close> is the \<open>uuid\<close> of the local record, Read returns \<^verbatim>\<open>nil\<close> and leaves the
  record with the key, value and secured flag of \<open>rv\<close>, with the identity set to the
  \<open>UUID\<close> of \<open>rv\<close>, which the \<open>uuid\<close> field already holds.
\<close>

theorem Read_copies_first_match:
  assumes parse: "parseDeploymentId (rd_deployment d) = Inr (repository, deployment)"
    and get: "Get m (variablesPath repository deployment) (remote w) = ((Some rvReq, err), s)"
    and status: "StatusCode rvReq = 200"
    and body: "Body rvReq = Inr body"
    and page: "UnmarshalPage L body = Inr prv"
    and size: "1 \<le> Size prv"
    and first: "find (\<lambda>rv. UUID rv = rd_uuid d) (Values prv) = Some rv"
    and d': "d' = fst (snd (resourceDeploymentVariableRead L m d w))"
  shows "fst (resourceDeploymentVariableRead L m d w) = Return None
       \<and> rd_key d' = Key rv \<and> rd_value d' = Value rv \<and> rd_secured d' = Secured rv
       \<and> rd_uuid d' = UUID rv \<and> rd_Id d' = UUID rv \<and> rd_deployment d' = rd_deployment d"
proof -
  from first have "UUID rv = rd_uuid d"
    by (auto simp: find_Some_iff)
  moreover from status body page size first
  have "readResponse L rvReq d =
          (None, d\<lparr>rd_Id := UUID rv, rd_key := Key rv, rd_value := Value rv,
                    rd_secured := Secured rv\<rparr>)"
    by (rule readResponse_found)
  ultimately show ?thesis
    using parse get unfolding d' by (simp add: Read_response)
qed

theorem Read_copies_first_match_witness:
  "fst (resourceDeploymentVariableRead mockLib mockClient local_u1
          (answers [(Some (response 200 ''page: u2 u1, size 2''), None)])) = Return None
   \<and> fst (snd (resourceDeploymentVariableRead mockLib mockClient local_u1
          (answers [(Some (response 200 ''page: u2 u1, size 2''), None)])))
     = \<lparr>rd_Id = ''u1'', rd_uuid = ''u1'', rd_key = ''k'', rd_value = ''v'',
        rd_secured = False, rd_deployment = ''team/repo:{env}''\<rparr>"
proof -
  have parse: "parseDeploymentId (rd_deployment local_u1) = Inr (''team/repo'', ''{env}'')"
    by (simp add: local_u1_def parse_example)
  have get: "Get mockClient (variablesPath ''team/repo'' ''{env}'')
               (remote (answers [(Some (response 200 ''page: u2 u1, size 2''), None)]))
             = ((Some (response 200 ''page: u2 u1, size 2''), None), [])"
    by (simp add: mockClient_def scripted_def answers_def)
  have status: "StatusCode (response 200 ''page: u2 u1, size 2'') = 200"
    and body: "Body (response 200 ''page: u2 u1, size 2'') = Inr ''page: u2 u1, size 2''"
    by (simp_all add: response_def)
  have page: "UnmarshalPage mockLib ''page: u2 u1, size 2''
                = Inr \<lparr>Values = [var_u2, var_u1], Page = 1, Size = 2, Next = []\<rparr>"
    by (simp add: mockLib_def mockUnmarshalPage_def)
  have size: "1 \<le> Size \<lparr>Values = [var_u2, var_u1], Page = 1, Size = 2, Next = []\<rparr>"
    by simp
  have first: "find (\<lambda>rv. UUID rv = rd_uuid local_u1)
                 (Values \<lparr>Values = [var_u2, var_u1], Page = 1, Size = 2, Next = []\<rparr>)
               = Some var_u1"
    by (simp add: var_u1_def var_u2_def local_u1_def)
  from Read_copies_first_match [OF parse get status body page size first refl]
  show ?thesis
    by (cases "fst (snd (resourceDeploymentVariableRead mockLib mockClient local_u1
          (answers [(Some (response 200 ''page: u2 u1, size 2''), None)])))")
      (simp add: var_u1_def local_u1_def)
qed

subsection \<open>Create, Update and Delete, unfolded\<close>

lemma Create_error:
  assumes "Marshal L (newDeploymentVariableFromResource d) = Inr bytedata"
    and "parseDeploymentId (rd_deployment d) = Inr (repository, deployment)"
    and "Post m (variablesPath repository deployment) bytedata (remote w) = ((r, Some e), s)"
  shows "resourceDeploymentVariableCreate L m d w =
           (Return (Some e), d,
            \<lparr>remote = s, trace = trace w @ [HttpPost (variablesPath repository deployment) bytedata]\<rparr>)"
  using assms by (simp add: resourceDeploymentVariableCreate_def call_eq)

lemma Create_nil_response:
  assumes "Marshal L (newDeploymentVariableFromResource d) = Inr bytedata"
    and "parseDeploymentId (rd_deployment d) = Inr (repository, deployment)"
    and "Post m (variablesPath repository deployment) bytedata (remote w) = ((None, None), s)"
  shows "resourceDeploymentVariableCreate L m d w =
           (Panic NilPointerDereference, d,
            \<lparr>remote = s, trace = trace w @ [HttpPost (variablesPath repository deployment) bytedata]\<rparr>)"
  using assms by (simp add: resourceDeploymentVariableCreate_def call_eq)

lemma Create_response:
  assumes "Marshal L (newDeploymentVariableFromResource d) = Inr bytedata"
    and "parseDeploymentId (rd_deployment d) = Inr (repository, deployment)"
    and "Post m (variablesPath repository deployment) bytedata (remote w) = ((Some req, None), s)"
  shows "resourceDeploymentVariableCreate L m d w =
           (case Body req of
              Inl err \<Rightarrow> (Return (Some err), d,
                \<lparr>remote = s, trace = trace w @ [HttpPost (variablesPath repository deployment) bytedata]\<rparr>)
            | Inr body \<Rightarrow>
               (case UnmarshalVariable L body of
                  Inl err \<Rightarrow> (Return (Some err), d,
                    \<lparr>remote = s, trace = trace w @ [HttpPost (variablesPath repository deployment) bytedata]\<rparr>)
                | Inr rv \<Rightarrow>
                    resourceDeploymentVariableRead L m (d\<lparr>rd_uuid := UUID rv, rd_Id := UUID rv\<rparr>)
                      (sleep L 5000
                        \<lparr>remote = s, trace = trace w @ [HttpPost (variablesPath repository deployment) bytedata]\<rparr>)))"
  using assms by (simp add: resourceDeploymentVariableCreate_def call_eq)

lemma Update_error:
  assumes "Marshal L (newDeploymentVariableFromResource d) = Inr bytedata"
    and "parseDeploymentId (rd_deployment d) = Inr (repository, deployment)"
    and "Put m (variablePath repository deployment (rd_uuid d)) bytedata (remote w) = ((r, Some e), s)"
  shows "resourceDeploymentVariableUpdate L m d w =
           (Return (Some e), d,
            \<lparr>remote = s,
              trace = trace w @ [HttpPut (variablePath repository deployment (rd_uuid d)) bytedata]\<rparr>)"
  using assms by (simp add: resourceDeploymentVariableUpdate_def call_eq)

lemma Update_nil_response:
  assumes "Marshal L (newDeploymentVariableFromResource d) = Inr bytedata"
    and "parseDeploymentId (rd_deployment d) = Inr (repository, deployment)"
    and "Put m (variablePath repository deployment (rd_uuid d)) bytedata (remote w) = ((None, None), s)"
  shows "resourceDeploymentVariableUpdate L m d w =
           (Panic NilPointerDereference, d,
            \<lparr>remote = s,
              trace = trace w @ [HttpPut (variablePath repository deployment (rd_uuid d)) bytedata]\<rparr>)"
  using assms by (simp add: resourceDeploymentVariableUpdate_def call_eq)

lemma Update_response:
  assumes "Marshal L (newDeploymentVariableFromResource d) = Inr bytedata"
    and "parseDeploymentId (rd_deployment d) = Inr (repository, deployment)"
    and "Put m (variablePath repository deployment (rd_uuid d)) bytedata (remote w) = ((Some req, None), s)"
  shows "resourceDeploymentVariableUpdate L m d w =
           (if StatusCode req \<noteq> 200
            then (Return None, d,
              \<lparr>remote = s,
                trace = trace w @ [HttpPut (variablePath repository deployment (rd_uuid d)) bytedata]\<rparr>)
            else resourceDeploymentVariableRead L m d
              \<lparr>remote = s,
                trace = trace w @ [HttpPut (variablePath repository deployment (rd_uuid d)) bytedata]\<rparr>)"
  using assms by (simp add: resourceDeploymentVariableUpdate_def call_eq)

lemma Delete_result:
  assumes "parseDeploymentId (rd_deployment d) = Inr (repository, deployment)"
    and "Delete m (Sprintf0 L (variablePath repository deployment (rd_uuid d))) (remote w) = ((r, err), s)"
  shows "resourceDeploymentVariableDelete L m d w =
           (Return err, d,
            \<lparr>remote = s,
              trace = trace w @ [HttpDelete (Sprintf0 L (variablePath repository deployment (rd_uuid d)))]\<rparr>)"
  using assms by (simp add: resourceDeploymentVariableDelete_def call_eq)

lemma Create_first_event:
  assumes marshal: "Marshal L (newDeploymentVariableFromResource d) = Inr bytedata"
    and parse: "parseDeploymentId (rd_deployment d) = Inr (repository, deployment)"
  shows "prefix (trace w @ [HttpPost (variablesPath repository deployment) bytedata])
           (trace (snd (snd (resourceDeploymentVariableCreate L m d w))))"
proof -
  obtain r e s where
    post: "Post m (variablesPath repository deployment) bytedata (remote w) = ((r, e), s)"
    by (metis prod.exhaust)
  show ?thesis
  proof (cases e)
    case (Some err)
    with marshal parse post show ?thesis by (simp add: Create_error)
  next
    case None
    show ?thesis
    proof (cases r)
      case None
      with \<open>e = None\<close> marshal parse post show ?thesis by (simp add: Create_nil_response)
    next
      case (Some req)
      have "parseDeploymentId (rd_deployment (d\<lparr>rd_uuid := u, rd_Id := u\<rparr>)) = Inr (repository, deployment)"
        for u using parse by simp
      note tr = Read_trace [OF this]
      from Some \<open>e = None\<close> marshal parse post show ?thesis
        by (simp add: Create_response tr sleep_def split: sum.splits)
    qed
  qed
qed

lemma Update_first_event:
  assumes marshal: "Marshal L (newDeploymentVariableFromResource d) = Inr bytedata"
    and parse: "parseDeploymentId (rd_deployment d) = Inr (repository, deployment)"
  shows "prefix (trace w @ [HttpPut (variablePath repository deployment (rd_uuid d)) bytedata])
           (trace (snd (snd (resourceDeploymentVariableUpdate L m d w))))"
proof -
  obtain r e s where
    put: "Put m (variablePath repository deployment (rd_uuid d)) bytedata (remote w) = ((r, e), s)"
    by (metis prod.exhaust)
  show ?thesis
  proof (cases e)
    case (Some err)
    with marshal parse put show ?thesis by (simp add: Update_error)
  next
    case None
    show ?thesis
    proof (cases r)
      case None
      with \<open>e = None\<close> marshal parse put show ?thesis by (simp add: Update_nil_response)
    next
      case (Some req)
      note tr = Read_trace [OF parse]
      from Some \<open>e = None\<close> marshal parse put show ?thesis
        by (simp add: Update_response tr)
    qed
  qed
qed

lemma marshal_example:
  "Marshal mockLib (newDeploymentVariableFromResource d) = Inr (rd_key d @ ''='' @ rd_value d)"
  by (simp add: mockLib_def newDeploymentVariableFromResource_def)

subsection \<open>The claims about Update and Create\<close>

text \<open>
  Claim C7. When the PUT of Update is answered without error by a response whose status
  is not 200, Update returns \<^verbatim>\<open>nil\<close> and the record is untouched. The PUT is the only
  thing Update does: there is no request and no log line of a Read after it.
\<close>

theorem Update_non_200_is_silent:
  assumes marshal: "Marshal L (newDeploymentVariableFromResource d) = Inr bytedata"
    and parse: "parseDeploymentId (rd_deployment d) = Inr (repository, deployment)"
    and put: "Put m (variablePath repository deployment (rd_uuid d)) bytedata (remote w)
                = ((Some req, None), s)"
    and status: "StatusCode req \<noteq> 200"
  shows "resourceDeploymentVariableUpdate L m d w =
           (Return None, d,
            \<lparr>remote = s,
              trace = trace w @
                [HttpPut (variablePath repository deployment (rd_uuid d)) bytedata]\<rparr>)"
  using status by (simp add: Update_response [OF marshal parse put])

theorem Update_non_200_is_silent_witness:
  "resourceDeploymentVariableUpdate mockLib mockClient local_u1
       (answers [(Some (response 500 ''internal error''), None)])
     = (Return None, local_u1,
        \<lparr>remote = [],
          trace = [HttpPut (variablePath ''team/repo'' ''{env}'' ''u1'') ''old=x'']\<rparr>)"
proof -
  have marshal: "Marshal mockLib (newDeploymentVariableFromResource local_u1) = Inr ''old=x''"
    by (simp add: marshal_example) (simp add: local_u1_def)
  have parse: "parseDeploymentId (rd_deployment local_u1) = Inr (''team/repo'', ''{env}'')"
    by (simp add: local_u1_def parse_example)
  have put: "Put mockClient (variablePath ''team/repo'' ''{env}'' (rd_uuid local_u1)) ''old=x''
               (remote (answers [(Some (response 500 ''internal error''), None)]))
             = ((Some (response 500 ''internal error''), None), [])"
    by (simp add: mockClient_def scripted_def answers_def)
  have status: "StatusCode (response 500 ''internal error'') \<noteq> 200"
    by (simp add: response_def)
  from Update_non_200_is_silent [OF marshal parse put status]
  show ?thesis by (simp add: answers_def) (simp add: local_u1_def)
qed

text \<open>
  Claim C5. When the POST of Create is answered without error by a response whose body
  decodes to a variable \<open>rv\<close>, Create sets the \<open>uuid\<close> field and the identity of the
  record to the \<open>UUID\<close> of \<open>rv\<close>, sleeps five seconds and ends as Read on that record
  does. After the POST it hands one request to the client, the GET of that Read, whose
  log line shows the identity it was called with; the \<open>uuid\<close> field still holds the
  \<open>UUID\<close> of \<open>rv\<close> when Create ends.
\<close>

theorem Create_stores_uuid_then_reads_once:
  assumes marshal: "Marshal L (newDeploymentVariableFromResource d) = Inr bytedata"
    and parse: "parseDeploymentId (rd_deployment d) = Inr (repository, deployment)"
    and post: "Post m (variablesPath repository deployment) bytedata (remote w)
                 = ((Some req, None), s)"
    and body: "Body req = Inr body"
    and rv: "UnmarshalVariable L body = Inr rv"
  shows "resourceDeploymentVariableCreate L m d w =
           resourceDeploymentVariableRead L m (d\<lparr>rd_uuid := UUID rv, rd_Id := UUID rv\<rparr>)
             (sleep L 5000
               \<lparr>remote = s,
                 trace = trace w @ [HttpPost (variablesPath repository deployment) bytedata]\<rparr>)
       \<and> trace (snd (snd (resourceDeploymentVariableCreate L m d w))) =
           trace w @
             [HttpPost (variablesPath repository deployment) bytedata,
              Slept 5000,
              HttpGet (variablesPath repository deployment),
              Logged (''ID: '' @ PathEscape L (UUID rv))]
       \<and> rd_uuid (fst (snd (resourceDeploymentVariableCreate L m d w))) = UUID rv"
proof -
  let ?d = "d\<lparr>rd_uuid := UUID rv, rd_Id := UUID rv\<rparr>"
  let ?w = "sleep L 5000
     \<lparr>remote = s, trace = trace w @ [HttpPost (variablesPath repository deployment) bytedata]\<rparr>"
  have create: "resourceDeploymentVariableCreate L m d w = resourceDeploymentVariableRead L m ?d ?w"
    by (simp add: Create_response [OF marshal parse post] body rv)
  have "parseDeploymentId (rd_deployment ?d) = Inr (repository, deployment)"
    using parse by simp
  from Read_trace [OF this, of L m ?w]
  have "trace (snd (snd (resourceDeploymentVariableRead L m ?d ?w))) =
          trace w @
             [HttpPost (variablesPath repository deployment) bytedata,
              Slept 5000,
              HttpGet (variablesPath repository deployment),
              Logged (''ID: '' @ PathEscape L (UUID rv))]"
    by (simp add: sleep_def)
  moreover have "rd_uuid (fst (snd (resourceDeploymentVariableRead L m ?d ?w))) = UUID rv"
    using Read_keeps [of L m ?d ?w] by simp
  ultimately show ?thesis
    using create by simp
qed

theorem Create_stores_uuid_then_reads_once_witness:
  "resourceDeploymentVariableCreate mockLib mockClient local_new
       (answers [(Some (response 201 ''variable: u1''), None),
                 (Some (response 200 ''page: u2 u1, size 2''), None)])
     = resourceDeploymentVariableRead mockLib mockClient
         (local_new\<lparr>rd_uuid := ''u1'', rd_Id := ''u1''\<rparr>)
         \<lparr>remote = [(Some (response 200 ''page: u2 u1, size 2''), None)],
           trace = [HttpPost (variablesPath ''team/repo'' ''{env}'') ''k=v'', Slept 5000]\<rparr>
   \<and> trace (snd (snd (resourceDeploymentVariableCreate mockLib mockClient local_new
       (answers [(Some (response 201 ''variable: u1''), None),
                 (Some (response 200 ''page: u2 u1, size 2''), None)]))))
     = [HttpPost (variablesPath ''team/repo'' ''{env}'') ''k=v'',
        Slept 5000,
        HttpGet (variablesPath ''team/repo'' ''{env}''),
        Logged ''ID: u1'']
   \<and> rd_uuid (fst (snd (resourceDeploymentVariableCreate mockLib mockClient local_new
       (answers [(Some (response 201 ''variable: u1''), None),
                 (Some (response 200 ''page: u2 u1, size 2''), None)])))) = ''u1''"
proof -
  have marshal: "Marshal mockLib (newDeploymentVariableFromResource local_new) = Inr ''k=v''"
    by (simp add: marshal_example) (simp add: local_new_def)
  have parse: "parseDeploymentId (rd_deployment local_new) = Inr (''team/repo'', ''{env}'')"
    by (simp add: local_new_def parse_example)
  have post: "Post mockClient (variablesPath ''team/repo'' ''{env}'') ''k=v''
               (remote (answers [(Some (response 201 ''variable: u1''), None),
                 (Some (response 200 ''page: u2 u1, size 2''), None)]))
             = ((Some (response 201 ''variable: u1''), None),
                [(Some (response 200 ''page: u2 u1, size 2''), None)])"
    by (simp add: mockClient_def scripted_def answers_def)
  have body: "Body (response 201 ''variable: u1'') = Inr ''variable: u1''"
    by (simp add: response_def)
  have rv: "UnmarshalVariable mockLib ''variable: u1'' = Inr var_u1"
    by (simp add: mockLib_def)
  have u: "UUID var_u1 = ''u1''" by (simp add: var_u1_def)
  have sl: "sleep mockLib ms w = \<lparr>remote = remote w, trace = trace w @ [Slept ms]\<rparr>" for ms w
    by (simp add: sleep_def mockLib_def)
  have pe: "PathEscape mockLib x = x" for x by (simp add: mockLib_def)
  note create = Create_stores_uuid_then_reads_once [OF marshal parse post body rv]
  have "resourceDeploymentVariableCreate mockLib mockClient local_new
       (answers [(Some (response 201 ''variable: u1''), None),
                 (Some (response 200 ''page: u2 u1, size 2''), None)])
     = resourceDeploymentVariableRead mockLib mockClient
         (local_new\<lparr>rd_uuid := ''u1'', rd_Id := ''u1''\<rparr>)
         \<lparr>remote = [(Some (response 200 ''page: u2 u1, size 2''), None)],
           trace = [HttpPost (variablesPath ''team/repo'' ''{env}'') ''k=v'', Slept 5000]\<rparr>"
    using create [THEN conjunct1] by (simp add: u sl answers_def)
  moreover have "trace (snd (snd (resourceDeploymentVariableCreate mockLib mockClient local_new
       (answers [(Some (response 201 ''variable: u1''), None),
                 (Some (response 200 ''page: u2 u1, size 2''), None)]))))
     = [HttpPost (variablesPath ''team/repo'' ''{env}'') ''k=v'',
        Slept 5000,
        HttpGet (variablesPath ''team/repo'' ''{env}''),
        Logged ''ID: u1'']"
    using create [THEN conjunct2, THEN conjunct1] by (simp add: u pe answers_def)
  moreover have "rd_uuid (fst (snd (resourceDeploymentVariableCreate mockLib mockClient local_new
       (answers [(Some (response 201 ''variable: u1''), None),
                 (Some (response 200 ''page: u2 u1, size 2''), None)])))) = ''u1''"
    using create [THEN conjunct2, THEN conjunct2] by (simp add: u)
  ultimately show ?thesis by blast
qed

subsection \<open>The claim about transport errors\<close>

lemma Read_discards_error:
  "resourceDeploymentVariableRead L m d w =
     resourceDeploymentVariableRead L
       (m\<lparr>Get := \<lambda>path s. ((fst (fst (Get m path s)), None), snd (Get m path s))\<rparr>) d w"
  by (simp add: resourceDeploymentVariableRead_def call_def split: sum.splits prod.splits)

text \<open>
  Claim C2, as the code has it. Read binds the error of \<^verbatim>\<open>client.Get\<close> to the blank
  identifier: when the client answers with a response and an error, Read returns \<^verbatim>\<open>nil\<close>,
  not that error.
\<close>

theorem Read_discards_transport_error:
  "Get mockClient (variablesPath ''team/repo'' ''{env}'')
       (remote (answers [(Some (response 502 []), Some ''502 Bad Gateway'')]))
     = ((Some (response 502 []), Some ''502 Bad Gateway''), [])
   \<and> parseDeploymentId (rd_deployment local_u1) = Inr (''team/repo'', ''{env}'')
   \<and> resourceDeploymentVariableRead mockLib mockClient local_u1
        (answers [(Some (response 502 []), Some ''502 Bad Gateway'')])
     = (Return None, local_u1,
        \<lparr>remote = [],
          trace = [HttpGet (variablesPath ''team/repo'' ''{env}''), Logged ''ID: u1'']\<rparr>)"
proof -
  have parse: "parseDeploymentId (rd_deployment local_u1) = Inr (''team/repo'', ''{env}'')"
    by (simp add: local_u1_def parse_example)
  have get: "Get mockClient (variablesPath ''team/repo'' ''{env}'')
       (remote (answers [(Some (response 502 []), Some ''502 Bad Gateway'')]))
     = ((Some (response 502 []), Some ''502 Bad Gateway''), [])"
    by (simp add: mockClient_def scripted_def answers_def)
  have "readResponse mockLib (response 502 []) local_u1 = (None, local_u1)"
    by (simp add: readResponse_eq) (simp add: response_def)
  moreover have "PathEscape mockLib (rd_Id local_u1) = ''u1''"
    by (simp add: mockLib_def local_u1_def)
  ultimately show ?thesis
    using parse get by (simp add: Read_response [OF parse get]) (simp add: answers_def)
qed

text \<open>
  Claim C2, amended. An error returned by \<^verbatim>\<open>client.Post\<close> in Create, by \<^verbatim>\<open>client.Put\<close> in
  Update or by \<^verbatim>\<open>client.Delete\<close> in Delete is returned to the caller at once: the record
  is untouched and the failed request is the only thing the operation has done. Read
  discards the error of \<^verbatim>\<open>client.Get\<close>: it behaves as it does with a client that gives
  the same responses and never an error.
\<close>

theorem transport_errors_of_Post_Put_Delete_propagate:
  assumes parse: "parseDeploymentId (rd_deployment d) = Inr (repository, deployment)"
  shows "(Marshal L (newDeploymentVariableFromResource d) = Inr bytedata \<longrightarrow>
          Post m (variablesPath repository deployment) bytedata (remote w)
            = ((r1, Some e1), s1) \<longrightarrow>
          resourceDeploymentVariableCreate L m d w =
            (Return (Some e1), d,
             \<lparr>remote = s1,
               trace = trace w @ [HttpPost (variablesPath repository deployment) bytedata]\<rparr>))
       \<and> (Marshal L (newDeploymentVariableFromResource d) = Inr bytedata \<longrightarrow>
          Put m (variablePath repository deployment (rd_uuid d)) bytedata (remote w)
            = ((r2, Some e2), s2) \<longrightarrow>
          resourceDeploymentVariableUpdate L m d w =
            (Return (Some e2), d,
             \<lparr>remote = s2,
               trace = trace w @
                 [HttpPut (variablePath repository deployment (rd_uuid d)) bytedata]\<rparr>))
       \<and> (Delete m (Sprintf0 L (variablePath repository deployment (rd_uuid d))) (remote w)
            = ((r3, Some e3), s3) \<longrightarrow>
          resourceDeploymentVariableDelete L m d w =
            (Return (Some e3), d,
             \<lparr>remote = s3,
               trace = trace w @
                 [HttpDelete (Sprintf0 L (variablePath repository deployment (rd_uuid d)))]\<rparr>))
       \<and> resourceDeploymentVariableRead L m d w =
           resourceDeploymentVariableRead L
             (m\<lparr>Get := \<lambda>path s. ((fst (fst (Get m path s)), None), snd (Get m path s))\<rparr>)
             d w"
  using parse
  by (intro conjI impI) (simp_all add: Create_error Update_error Delete_result Read_discards_error [symmetric])

theorem transport_errors_of_Post_Put_Delete_propagate_witness:
  "resourceDeploymentVariableCreate mockLib mockClient local_u1
       (answers [(None, Some ''connection refused'')])
     = (Return (Some ''connection refused''), local_u1,
        \<lparr>remote = [], trace = [HttpPost (variablesPath ''team/repo'' ''{env}'') ''old=x'']\<rparr>)
   \<and> resourceDeploymentVariableUpdate mockLib mockClient local_u1
       (answers [(None, Some ''connection refused'')])
     = (Return (Some ''connection refused''), local_u1,
        \<lparr>remote = [],
          trace = [HttpPut (variablePath ''team/repo'' ''{env}'' ''u1'') ''old=x'']\<rparr>)
   \<and> resourceDeploymentVariableDelete mockLib mockClient local_u1
       (answers [(None, Some ''connection refused'')])
     = (Return (Some ''connection refused''), local_u1,
        \<lparr>remote = [],
          trace = [HttpDelete (variablePath ''team/repo'' ''{env}'' ''u1'')]\<rparr>)"
proof -
  let ?w = "answers [(None, Some ''connection refused'')]"
  have parse: "parseDeploymentId (rd_deployment local_u1) = Inr (''team/repo'', ''{env}'')"
    by (simp add: local_u1_def parse_example)
  have marshal: "Marshal mockLib (newDeploymentVariableFromResource local_u1) = Inr ''old=x''"
    by (simp add: marshal_example) (simp add: local_u1_def)
  have post: "Post mockClient (variablesPath ''team/repo'' ''{env}'') ''old=x'' (remote ?w)
                = ((None, Some ''connection refused''), [])"
    and put: "Put mockClient (variablePath ''team/repo'' ''{env}'' (rd_uuid local_u1)) ''old=x''
                (remote ?w) = ((None, Some ''connection refused''), [])"
    and delete: "Delete mockClient
                (Sprintf0 mockLib (variablePath ''team/repo'' ''{env}'' (rd_uuid local_u1)))
                (remote ?w) = ((None, Some ''connection refused''), [])"
    by (simp_all add: mockClient_def scripted_def answers_def)
  have u: "rd_uuid local_u1 = ''u1''" by (simp add: local_u1_def)
  have sp: "Sprintf0 mockLib x = x" for x by (simp add: mockLib_def)
  have tr: "trace ?w = []" by (simp add: answers_def)
  note all = transport_errors_of_Post_Put_Delete_propagate [OF parse, of mockLib "''old=x''"
      mockClient ?w None "''connection refused''" "[]" None "''connection refused''" "[]"
      None "''connection refused''" "[]"]
  from all marshal post put delete show ?thesis
    by (simp only: u sp tr append_Nil simp_thms)
qed

subsection \<open>Idempotence of Read\<close>

text \<open>
  Claim C8. Let Read return, leaving the record \<open>d1\<close>, and let the client answer the same
  list request in the same way once more. Then a second Read, run on \<open>d1\<close>, returns what
  the first returned and leaves \<open>d1\<close> as it is.
\<close>

theorem Read_idempotent:
  assumes first: "resourceDeploymentVariableRead L m d w = (Return err, d1, w1)"
    and parse: "parseDeploymentId (rd_deployment d) = Inr (repository, deployment)"
    and same: "fst (Get m (variablesPath repository deployment) (remote w1))
                 = fst (Get m (variablesPath repository deployment) (remote w))"
  shows "fst (resourceDeploymentVariableRead L m d1 w1) = Return err
       \<and> fst (snd (resourceDeploymentVariableRead L m d1 w1)) = d1"
proof -
  obtain r e s where
    get: "Get m (variablesPath repository deployment) (remote w) = ((r, e), s)"
    by (metis prod.exhaust)
  have "r \<noteq> None"
  proof
    assume "r = None"
    with get parse first show False by (simp add: Read_nil_response)
  qed
  then obtain rvReq where r: "r = Some rvReq" by blast
  from first have res: "err = fst (readResponse L rvReq d)" "d1 = snd (readResponse L rvReq d)"
    by (simp_all add: Read_response [OF parse get [unfolded r]])
  from res(2) parse have parse1:
    "parseDeploymentId (rd_deployment d1) = Inr (repository, deployment)"
    by (simp add: readResponse_keeps)
  obtain s1 where
    get1: "Get m (variablesPath repository deployment) (remote w1) = ((Some rvReq, e), s1)"
    using same get r by (metis fst_conv prod.exhaust)
  have again: "readResponse L rvReq d1 = (err, d1)"
    unfolding res by (simp add: readResponse_again)
  show ?thesis
    unfolding Read_response [OF parse1 get1] by (simp add: again)
qed

theorem Read_idempotent_witness:
  "fst (resourceDeploymentVariableRead mockLib mockClient
          \<lparr>rd_Id = ''u1'', rd_uuid = ''u1'', rd_key = ''k'', rd_value = ''v'',
            rd_secured = False, rd_deployment = ''team/repo:{env}''\<rparr>
          \<lparr>remote = [(Some (response 200 ''page: u2 u1, size 2''), None)],
            trace = [HttpGet (variablesPath ''team/repo'' ''{env}''), Logged ''ID: u1'']\<rparr>)
     = Return None
   \<and> fst (snd (resourceDeploymentVariableRead mockLib mockClient
          \<lparr>rd_Id = ''u1'', rd_uuid = ''u1'', rd_key = ''k'', rd_value = ''v'',
            rd_secured = False, rd_deployment = ''team/repo:{env}''\<rparr>
          \<lparr>remote = [(Some (response 200 ''page: u2 u1, size 2''), None)],
            trace = [HttpGet (variablesPath ''team/repo'' ''{env}''), Logged ''ID: u1'']\<rparr>))
     = \<lparr>rd_Id = ''u1'', rd_uuid = ''u1'', rd_key = ''k'', rd_value = ''v'',
            rd_secured = False, rd_deployment = ''team/repo:{env}''\<rparr>"
proof -
  let ?r = "(Some (response 200 ''page: u2 u1, size 2''), None)"
  have parse: "parseDeploymentId (rd_deployment local_u1) = Inr (''team/repo'', ''{env}'')"
    by (simp add: local_u1_def parse_example)
  have get: "Get mockClient (variablesPath ''team/repo'' ''{env}'') (remote (answers [?r, ?r]))
               = (?r, [?r])"
    by (simp add: mockClient_def scripted_def answers_def)
  have page: "UnmarshalPage mockLib ''page: u2 u1, size 2''
                = Inr \<lparr>Values = [var_u2, var_u1], Page = 1, Size = 2, Next = []\<rparr>"
    by (simp add: mockLib_def mockUnmarshalPage_def)
  have "readResponse mockLib (response 200 ''page: u2 u1, size 2'') local_u1
          = (None, \<lparr>rd_Id = ''u1'', rd_uuid = ''u1'', rd_key = ''k'', rd_value = ''v'',
                     rd_secured = False, rd_deployment = ''team/repo:{env}''\<rparr>)"
    by (simp add: readResponse_eq page) (simp add: response_def page var_u1_def var_u2_def local_u1_def)
  moreover have "PathEscape mockLib (rd_Id local_u1) = ''u1''"
    by (simp add: mockLib_def local_u1_def)
  ultimately have first: "resourceDeploymentVariableRead mockLib mockClient local_u1 (answers [?r, ?r])
     = (Return None,
        \<lparr>rd_Id = ''u1'', rd_uuid = ''u1'', rd_key = ''k'', rd_value = ''v'',
            rd_secured = False, rd_deployment = ''team/repo:{env}''\<rparr>,
        \<lparr>remote = [?r],
          trace = [HttpGet (variablesPath ''team/repo'' ''{env}''), Logged ''ID: u1'']\<rparr>)"
    by (simp add: Read_response [OF parse get]) (simp add: answers_def)
  have same: "fst (Get mockClient (variablesPath ''team/repo'' ''{env}'')
        (remote \<lparr>remote = [?r],
          trace = [HttpGet (variablesPath ''team/repo'' ''{env}''), Logged ''ID: u1'']\<rparr>))
     = fst (Get mockClient (variablesPath ''team/repo'' ''{env}'') (remote (answers [?r, ?r])))"
    by (simp add: mockClient_def scripted_def answers_def)
  from Read_idempotent [OF first parse same] show ?thesis .
qed

subsection \<open>Empty components of the deployment identifier\<close>

text \<open>
  Claim C10. Nothing checks that the two components of the deployment identifier are
  non-empty. Whatever stands before the first colon and after it, the empty string
  included, \<open>parseDeploymentId\<close> returns the two parts, and each of the four operations
  goes on to hand the client a request whose path has the two parts, as they are, in the
  places of the format: \<^verbatim>\<open>2.0/repositories/\<close>, the first part,
  \<^verbatim>\<open>/deployments_config/environments/\<close>, the second part, \<^verbatim>\<open>/variables\<close>, and for Update
  and Delete a slash and the \<open>uuid\<close> field (Create and Update once the record has been
  marshalled; Delete passes its path through the second \<^verbatim>\<open>fmt.Sprintf\<close>).
\<close>

theorem empty_components_reach_the_request:
  assumes deployment: "rd_deployment d = a @ CHR '':'' # b"
    and first: "CHR '':'' \<notin> set a"
  shows "parseDeploymentId (rd_deployment d) = Inr (a, b)
       \<and> (Marshal L (newDeploymentVariableFromResource d) = Inr bytedata \<longrightarrow>
            prefix
              (trace w @
                [HttpPost
                   (''2.0/repositories/'' @ a @ ''/deployments_config/environments/'' @ b
                      @ ''/variables'')
                   bytedata])
              (trace (snd (snd (resourceDeploymentVariableCreate L m d w))))
          \<and> prefix
              (trace w @
                [HttpPut
                   (''2.0/repositories/'' @ a @ ''/deployments_config/environments/'' @ b
                      @ ''/variables/'' @ rd_uuid d)
                   bytedata])
              (trace (snd (snd (resourceDeploymentVariableUpdate L m d w)))))
       \<and> trace (snd (snd (resourceDeploymentVariableRead L m d w))) =
           trace w @
             [HttpGet
                (''2.0/repositories/'' @ a @ ''/deployments_config/environments/'' @ b
                   @ ''/variables''),
              Logged (''ID: '' @ PathEscape L (rd_Id d))]
       \<and> trace (snd (snd (resourceDeploymentVariableDelete L m d w))) =
           trace w @
             [HttpDelete
                (Sprintf0 L
                   (''2.0/repositories/'' @ a @ ''/deployments_config/environments/'' @ b
                      @ ''/variables/'' @ rd_uuid d))]"
proof -
  from first have parse: "parseDeploymentId (rd_deployment d) = Inr (a, b)"
    unfolding deployment by (rule parseDeploymentId_colon)
  obtain r err s where
    "Delete m (Sprintf0 L (variablePath a b (rd_uuid d))) (remote w) = ((r, err), s)"
    by (metis prod.exhaust)
  from Delete_result [OF parse this]
  have "trace (snd (snd (resourceDeploymentVariableDelete L m d w))) =
           trace w @ [HttpDelete (Sprintf0 L (variablePath a b (rd_uuid d)))]"
    by simp
  with parse have
    "parseDeploymentId (rd_deployment d) = Inr (a, b)
       \<and> (Marshal L (newDeploymentVariableFromResource d) = Inr bytedata \<longrightarrow>
            prefix (trace w @ [HttpPost (variablesPath a b) bytedata])
              (trace (snd (snd (resourceDeploymentVariableCreate L m d w))))
          \<and> prefix (trace w @ [HttpPut (variablePath a b (rd_uuid d)) bytedata])
              (trace (snd (snd (resourceDeploymentVariableUpdate L m d w)))))
       \<and> trace (snd (snd (resourceDeploymentVariableRead L m d w))) =
           trace w @ [HttpGet (variablesPath a b), Logged (''ID: '' @ PathEscape L (rd_Id d))]
       \<and> trace (snd (snd (resourceDeploymentVariableDelete L m d w))) =
           trace w @ [HttpDelete (Sprintf0 L (variablePath a b (rd_uuid d)))]"
    by (simp add: Create_first_event Update_first_event Read_trace)
  then show ?thesis
    unfolding variablesPath_def variablePath_def .
qed

theorem empty_components_reach_the_request_witness:
  "parseDeploymentId '':d'' = Inr ([], ''d'')
   \<and> parseDeploymentId ''r:'' = Inr (''r'', [])
   \<and> prefix [HttpPost ''2.0/repositories//deployments_config/environments/d/variables'' ''old=x'']
       (trace (snd (snd (resourceDeploymentVariableCreate mockLib mockClient
          (local_u1\<lparr>rd_deployment := '':d''\<rparr>) (answers [])))))
   \<and> prefix [HttpPut ''2.0/repositories//deployments_config/environments/d/variables/u1'' ''old=x'']
       (trace (snd (snd (resourceDeploymentVariableUpdate mockLib mockClient
          (local_u1\<lparr>rd_deployment := '':d''\<rparr>) (answers [])))))
   \<and> trace (snd (snd (resourceDeploymentVariableRead mockLib mockClient
          (local_u1\<lparr>rd_deployment := '':d''\<rparr>) (answers []))))
       = [HttpGet ''2.0/repositories//deployments_config/environments/d/variables'',
          Logged ''ID: u1'']
   \<and> trace (snd (snd (resourceDeploymentVariableDelete mockLib mockClient
          (local_u1\<lparr>rd_deployment := ''r:''\<rparr>) (answers []))))
       = [HttpDelete ''2.0/repositories/r/deployments_config/environments//variables/u1'']"
proof -
  let ?d = "local_u1\<lparr>rd_deployment := '':d''\<rparr>"
  let ?r = "local_u1\<lparr>rd_deployment := ''r:''\<rparr>"
  have d: "rd_deployment ?d = [] @ CHR '':'' # ''d''" and r: "rd_deployment ?r = ''r'' @ CHR '':'' # []"
    by simp_all
  have no: "CHR '':'' \<notin> set []" "CHR '':'' \<notin> set ''r''"
    by simp_all
  have marshal: "Marshal mockLib (newDeploymentVariableFromResource ?d) = Inr ''old=x''"
    by (simp add: marshal_example) (simp add: local_u1_def)
  have f: "rd_uuid ?d = ''u1''" "rd_uuid ?r = ''u1''" "rd_Id ?d = ''u1''"
    "PathEscape mockLib x = x" "Sprintf0 mockLib x = x" "trace (answers []) = []" for x
    by (simp_all add: local_u1_def mockLib_def answers_def)
  note one = empty_components_reach_the_request [OF d no(1), of mockLib "''old=x''" "answers []" mockClient]
  note two = empty_components_reach_the_request [OF r no(2), of mockLib "''old=x''" "answers []" mockClient]
  from one two marshal show ?thesis
    by (simp add: f)
qed

end
